theory Spec2Isabelle
  imports Main
begin

section \<open>ReportEngine/utils/dependency_check.py: the Pango dependency probe\<close>

text \<open>
  The module probes whether WeasyPrint and its native Pango binding load, and turns the
  outcome into a pair (is_available, message). Everything the module reads from outside
  itself is an input of the model: the value of \<^verbatim>\<open>platform.system()\<close>, what each
  of the three statements of the \<^verbatim>\<open>try\<close> body does (complete or raise), what
  the text conversions of a raised exception do (return a text or raise), what the call of
  \<^verbatim>\<open>print\<close> does, and the built-in \<^verbatim>\<open>str.lower\<close>.
\<close>

subsection \<open>Python strings\<close>

text \<open>
  A Python \<^verbatim>\<open>str\<close> is a sequence of Unicode code points; \<open>char\<close> of HOL is a
  byte, so a string is a list of code point numbers here. \<open>asc\<close> embeds an ASCII
  literal, \<open>spaces n\<close> is a run of \<open>n\<close> blanks (U+0020); every other code point
  of a literal of the source is written as its number (10 is the line feed
  \<^verbatim>\<open>\n\<close>, 9553 the box side U+2551, 9552 the box rule U+2550).
\<close>

type_synonym pystr = "nat list"

definition asc :: "string \<Rightarrow> pystr" where
  "asc s = map of_char s"

definition spaces :: "nat \<Rightarrow> pystr" where
  "spaces n = replicate n 32"

text \<open>\<^verbatim>\<open>needle in hay\<close> on strings: \<open>needle\<close> occurs in \<open>hay\<close> as a contiguous run.\<close>

fun starts_with :: "pystr \<Rightarrow> pystr \<Rightarrow> bool" where
  "starts_with hay [] = True"
| "starts_with [] (c # needle) = False"
| "starts_with (d # hay) (c # needle) = (d = c \<and> starts_with hay needle)"

fun str_contains :: "pystr \<Rightarrow> pystr \<Rightarrow> bool" where
  "str_contains [] needle = starts_with [] needle"
| "str_contains (d # hay) needle =
     (starts_with (d # hay) needle \<or> str_contains hay needle)"

text \<open>
  \<^verbatim>\<open>str.lower\<close> is Python's full Unicode lower-casing, which is not part of this
  module: the probe takes it as the parameter \<open>lower\<close>. On strings of ASCII code
  points it is \<open>ascii_lower\<close>.
\<close>

definition ascii_lower :: "pystr \<Rightarrow> pystr" where
  "ascii_lower s = map (\<lambda>c. if 65 \<le> c \<and> c \<le> 90 then c + 32 else c) s"

text \<open>A string is one line when it holds no line feed.\<close>

definition one_line :: "pystr \<Rightarrow> bool" where
  "one_line s = (10 \<notin> set s)"


subsection \<open>The host\<close>

text \<open>
  A raised exception is known to the module by the handler class it is an instance of
  and by its two text conversions. \<open>OSError\<close> and \<open>ImportError\<close> include their
  subclasses; \<open>Exception\<close> is an instance of \<^verbatim>\<open>Exception\<close> that is neither;
  \<open>BaseException\<close> is an exception outside \<^verbatim>\<open>Exception\<close>
  (\<^verbatim>\<open>KeyboardInterrupt\<close>, \<^verbatim>\<open>SystemExit\<close>, \<^verbatim>\<open>GeneratorExit\<close>).
\<close>

datatype exc_class = OSError | ImportError | Exception | BaseException

text \<open>
  \<open>exc_str e\<close> is what \<^verbatim>\<open>str(e)\<close> does and \<open>exc_format e\<close> what the
  replacement field \<^verbatim>\<open>{e}\<close> of an f-string does, which is
  \<^verbatim>\<open>format(e, "")\<close>: each returns a text (\<open>Inr\<close>) or raises (\<open>Inl\<close>), since
  the class of the exception may define \<^verbatim>\<open>__str__\<close> and \<^verbatim>\<open>__format__\<close>
  as it likes.
\<close>

datatype pyexc =
  PyExc (exc_class: exc_class) (exc_str: "pyexc + pystr") (exc_format: "pyexc + pystr")

text \<open>
  \<open>platform_system\<close> is the value of \<^verbatim>\<open>platform.system()\<close>. Each statement of
  the \<^verbatim>\<open>try\<close> body either completes (\<open>Inr ()\<close>) or raises (\<open>Inl e\<close>):
  \<open>import_weasyprint\<close> is \<^verbatim>\<open>from weasyprint import HTML\<close>,
  \<open>import_text_ffi\<close> is \<^verbatim>\<open>from weasyprint.text.ffi import ffi, pango\<close>,
  \<open>pango_version\<close> is the call \<^verbatim>\<open>pango.pango_version()\<close>, whose result is
  discarded. \<open>print_message\<close> is what the call \<^verbatim>\<open>print(message)\<close> of the entry
  point does: it raises (\<open>Inl e\<close>), as with a \<^verbatim>\<open>UnicodeEncodeError\<close> when the
  encoding of the standard output cannot represent the message, or it returns having
  written a text to the standard output (\<open>Inr w\<close>): the message and a line feed on a
  working stream, nothing when \<^verbatim>\<open>sys.stdout\<close> is \<^verbatim>\<open>None\<close>.
\<close>

record host =
  platform_system :: pystr
  import_weasyprint :: "pyexc + unit"
  import_text_ffi :: "pyexc + unit"
  pango_version :: "pyexc + unit"
  print_message :: "pyexc + pystr"

subsection \<open>\<^verbatim>\<open>_get_platform_specific_instructions\<close> (lines 10-54)\<close>

definition macos_instructions :: pystr where
  "macos_instructions =
     [9553] @ asc ''  '' @ [127822] @ asc '' macOS '' @ [31995, 32479, 35299, 20915, 26041, 26696, 65306] @ spaces 39 @ [9553, 10]
   @ [9553] @ spaces 64 @ [9553, 10]
   @ [9553] @ asc ''  1. '' @ [23433, 35013, 31995, 32479, 20381, 36182, 65306] @ spaces 45 @ [9553, 10]
   @ [9553] @ spaces 5 @ asc ''brew install pango gdk-pixbuf libffi'' @ spaces 23 @ [9553, 10]
   @ [9553] @ spaces 64 @ [9553, 10]
   @ [9553] @ asc ''  2. '' @ [35774, 32622, 29615, 22659, 21464, 37327, 65288, 37325, 35201, 65281, 65289, 65306] @ spaces 35 @ [9553, 10]
   @ [9553] @ spaces 5 @ asc ''export DYLD_LIBRARY_PATH=/opt/homebrew/lib:$DYLD_LIBRARY_PATH '' @ [9553, 10]
   @ [9553] @ spaces 64 @ [9553, 10]
   @ [9553] @ asc ''  3. '' @ [27704, 20037, 29983, 25928, 65288, 25512, 33616, 65289, 65306] @ spaces 41 @ [9553, 10]
   @ [9553] @ spaces 5 @ asc ''echo '' @ [39] @ asc ''export DYLD_LIBRARY_PATH=/opt/homebrew/lib:$DYLD_LIBRARY_PATH'' @ [39] @ asc '' >> ~/.zshrc '' @ [9553, 10]
   @ [9553] @ spaces 5 @ asc ''source ~/.zshrc'' @ spaces 44 @ [9553, 10]"

definition linux_instructions :: pystr where
  "linux_instructions =
     [9553] @ asc ''  '' @ [128039] @ asc '' Linux '' @ [31995, 32479, 35299, 20915, 26041, 26696, 65306] @ spaces 39 @ [9553, 10]
   @ [9553] @ spaces 64 @ [9553, 10]
   @ [9553] @ asc ''  Ubuntu/Debian:'' @ spaces 48 @ [9553, 10]
   @ [9553] @ spaces 4 @ asc ''sudo apt-get install libpango-1.0-0 libpangoft2-1.0-0 '' @ [92] @ spaces 4 @ [9553, 10]
   @ [9553] @ spaces 25 @ asc ''libgdk-pixbuf2.0-0 libffi-dev libcairo2 '' @ [9553, 10]
   @ [9553] @ spaces 64 @ [9553, 10]
   @ [9553] @ asc ''  CentOS/RHEL:'' @ spaces 50 @ [9553, 10]
   @ [9553] @ spaces 4 @ asc ''sudo yum install pango gdk-pixbuf2 libffi-devel cairo'' @ spaces 7 @ [9553, 10]"

definition windows_instructions :: pystr where
  "windows_instructions =
     [9553] @ asc ''  '' @ [129695] @ asc '' Windows '' @ [31995, 32479, 35299, 20915, 26041, 26696, 65306] @ spaces 37 @ [9553, 10]
   @ [9553] @ spaces 64 @ [9553, 10]
   @ [9553] @ asc ''  '' @ [19979, 36733, 24182, 23433, 35013] @ asc '' GTK3 Runtime'' @ [65306] @ spaces 37 @ [9553, 10]
   @ [9553] @ asc ''  https://github.com/tschoonj/GTK-for-Windows-Runtime-Environment-Installer/releases '' @ [9553, 10]"

definition other_instructions :: pystr where
  "other_instructions =
     [9553] @ asc ''  '' @ [35831, 26597, 30475] @ asc '' README.md '' @ [20102, 35299, 24744, 31995, 32479, 30340, 23433, 35013, 26041, 27861] @ spaces 24 @ [9553, 10]"

definition get_platform_specific_instructions :: "host \<Rightarrow> pystr" where
  "get_platform_specific_instructions h =
     (let system = platform_system h in
      if system = asc ''Darwin'' then macos_instructions
      else if system = asc ''Linux'' then linux_instructions
      else if system = asc ''Windows'' then windows_instructions
      else other_instructions)"

subsection \<open>\<^verbatim>\<open>check_pango_available\<close> (lines 57-99)\<close>

text \<open>The \<^verbatim>\<open>try\<close> body: three statements in order, the first raise ends it.\<close>

definition load_attempt :: "host \<Rightarrow> pyexc + unit" where
  "load_attempt h =
     (case import_weasyprint h of
        Inl e \<Rightarrow> Inl e
      | Inr _ \<Rightarrow>
          (case import_text_ffi h of
             Inl e \<Rightarrow> Inl e
           | Inr _ \<Rightarrow>
               (case pango_version h of
                  Inl e \<Rightarrow> Inl e
                | Inr _ \<Rightarrow> Inr ())))"

definition success_message :: pystr where
  "success_message =
     [10003] @ asc '' Pango '' @ [20381, 36182, 26816, 27979, 36890, 36807, 65292] @ asc ''PDF '' @ [23548, 20986, 21151, 33021, 21487, 29992]"

definition box_top :: pystr where
  "box_top = [9556] @ replicate 64 9552 @ [9559, 10]"

definition box_header :: pystr where
  "box_header =
     [9553] @ asc ''  '' @ [9888, 65039] @ asc ''  PDF '' @ [23548, 20986, 20381, 36182, 32570, 22833] @ spaces 42 @ [9553, 10]"

definition box_blank :: pystr where
  "box_blank = [9553] @ spaces 64 @ [9553, 10]"

definition box_pdf_only_note :: pystr where
  "box_pdf_only_note =
     [9553] @ asc ''  '' @ [128196] @ asc '' PDF '' @ [23548, 20986, 21151, 33021, 23558, 19981, 21487, 29992, 65288, 20854, 20182, 21151, 33021, 19981, 21463, 24433, 21709, 65289] @ spaces 18 @ [9553, 10]"

definition box_documentation :: pystr where
  "box_documentation =
     [9553] @ asc ''  '' @ [128214] @ asc '' '' @ [23436, 25972, 25991, 26723, 65306, 26681, 30446, 24405] @ asc '' README.md '' @ [31532] @ asc ''393'' @ [34892, 12300] @ asc ''PDF '' @ [23548, 20986, 20381, 36182, 12301] @ spaces 8 @ [9553, 10]"

definition box_bottom :: pystr where
  "box_bottom = [9562] @ replicate 64 9552 @ [9565]"

definition load_failed_prefix :: pystr where
  "load_failed_prefix = [9888] @ asc '' PDF '' @ [20381, 36182, 21152, 36733, 22833, 36133] @ asc '': ''"

definition not_installed_message :: pystr where
  "not_installed_message =
     [9888] @ asc '' WeasyPrint '' @ [26410, 23433, 35013, 10]
   @ [35299, 20915, 26041, 27861] @ asc '': pip install weasyprint''"

definition check_failed_prefix :: pystr where
  "check_failed_prefix = [9888] @ asc '' PDF '' @ [20381, 36182, 26816, 27979, 22833, 36133] @ asc '': ''"

text \<open>
  The handlers are tried in the order of the source; an exception that is no instance of
  \<^verbatim>\<open>Exception\<close> matches none of them and leaves the function (\<open>Inl\<close>). The
  first handler converts the exception with \<^verbatim>\<open>str(e)\<close> (line 75) and the third
  with \<^verbatim>\<open>{e}\<close> (line 99); a conversion that raises does so inside the handler,
  where no other handler applies, so its exception leaves the function.
\<close>

definition check_pango_available :: "(pystr \<Rightarrow> pystr) \<Rightarrow> host \<Rightarrow> pyexc + (bool \<times> pystr)" where
  "check_pango_available lower h =
     (case load_attempt h of
        Inr _ \<Rightarrow> Inr (True, success_message)
      | Inl e \<Rightarrow>
          if exc_class e = OSError then
            (case exc_str e of
               Inl raised \<Rightarrow> Inl raised
             | Inr error_msg \<Rightarrow>
                 (let platform_instructions = get_platform_specific_instructions h
                  in
                    if str_contains (lower error_msg) (asc ''gobject'')
                       \<or> str_contains (lower error_msg) (asc ''pango'')
                       \<or> str_contains (lower error_msg) (asc ''gdk'')
                    then Inr (False,
                           box_top
                         @ box_header
                         @ box_blank
                         @ box_pdf_only_note
                         @ box_blank
                         @ platform_instructions
                         @ box_blank
                         @ box_documentation
                         @ box_bottom)
                    else Inr (False, load_failed_prefix @ error_msg)))
          else if exc_class e = ImportError then
            Inr (False, not_installed_message)
          else if exc_class e = Exception then
            (case exc_format e of
               Inl raised \<Rightarrow> Inl raised
             | Inr formatted \<Rightarrow> Inr (False, check_failed_prefix @ formatted))
          else Inl e)"

subsection \<open>\<^verbatim>\<open>log_dependency_status\<close> (lines 102-115)\<close>

text \<open>
  The loguru sink is the list of the records written so far, the newest last; a record
  is its severity and its message.
\<close>

datatype severity = SUCCESS | WARNING | INFO

type_synonym log_record = "severity \<times> pystr"

definition pdf_only_tip :: pystr where
  "pdf_only_tip =
     [128161] @ asc '' '' @ [25552, 31034, 65306] @ asc ''PDF '' @ [23548, 20986, 21151, 33021, 38656, 35201] @ asc '' Pango '' @ [24211, 25903, 25345, 65292, 20294, 19981, 24433, 21709, 31995, 32479, 20854, 20182, 21151, 33021, 30340, 27491, 24120, 20351, 29992]"

definition readme_tip :: pystr where
  "readme_tip =
     [128218] @ asc '' '' @ [23433, 35013, 35828, 26126, 35831, 21442, 32771, 65306, 26681, 30446, 24405, 19979, 30340] @ asc '' README.md '' @ [25991, 20214]"

definition log_dependency_status ::
  "(pystr \<Rightarrow> pystr) \<Rightarrow> host \<Rightarrow> log_record list \<Rightarrow> pyexc + (bool \<times> log_record list)" where
  "log_dependency_status lower h logger =
     (case check_pango_available lower h of
        Inl e \<Rightarrow> Inl e
      | Inr (is_available, message) \<Rightarrow>
          if is_available then
            Inr (is_available, logger @ [(SUCCESS, message)])
          else
            Inr (is_available,
                 logger @ [(WARNING, message)] @ [(INFO, pdf_only_tip)] @ [(INFO, readme_tip)]))"

subsection \<open>The entry point (lines 118-122)\<close>


section \<open>Auxiliary facts\<close>

subsection \<open>Substring search finds exactly the contiguous occurrences\<close>

lemma starts_with_iff: "starts_with hay needle \<longleftrightarrow> (\<exists>s. hay = needle @ s)"
  by (induction hay needle rule: starts_with.induct) auto

lemma str_contains_iff: "str_contains hay needle \<longleftrightarrow> (\<exists>p s. hay = p @ needle @ s)"
proof (induction hay)
  case Nil
  then show ?case by (cases needle) auto
next
  case (Cons d hay)
  show ?case
  proof
    assume "str_contains (d # hay) needle"
    then consider "starts_with (d # hay) needle" | "str_contains hay needle" by auto
    then show "\<exists>p s. d # hay = p @ needle @ s"
    proof cases
      case 1
      then obtain s where "d # hay = needle @ s" by (auto simp: starts_with_iff)
      then have "d # hay = [] @ needle @ s" by simp
      then show ?thesis by blast
    next
      case 2
      then obtain p s where "hay = p @ needle @ s" using Cons.IH by blast
      then have "d # hay = (d # p) @ needle @ s" by simp
      then show ?thesis by blast
    qed
  next
    assume "\<exists>p s. d # hay = p @ needle @ s"
    then obtain p s where eq: "d # hay = p @ needle @ s" by blast
    show "str_contains (d # hay) needle"
    proof (cases p)
      case Nil
      with eq have "starts_with (d # hay) needle" by (auto simp: starts_with_iff)
      then show ?thesis by simp
    next
      case (Cons a p')
      with eq have "hay = p' @ needle @ s" by simp
      then have "str_contains hay needle" using Cons.IH by blast
      then show ?thesis by simp
    qed
  qed
qed

lemma str_containsI: "hay = p @ needle @ s \<Longrightarrow> str_contains hay needle"
  by (auto simp: str_contains_iff)

lemma one_line_append: "one_line (a @ b) \<longleftrightarrow> one_line a \<and> one_line b"
  by (auto simp: one_line_def)

lemma hd_success_message: "hd success_message = 10003"
  by (simp add: success_message_def)

lemma hd_box_top: "hd (box_top @ r) = 9556"
  by (simp add: box_top_def)

lemma hd_load_failed_prefix: "hd (load_failed_prefix @ r) = 9888"
  by (simp add: load_failed_prefix_def)

lemma hd_check_failed_prefix: "hd (check_failed_prefix @ r) = 9888"
  by (simp add: check_failed_prefix_def)

lemma hd_not_installed_message: "hd not_installed_message = 9888"
  by (simp add: not_installed_message_def)

lemma one_line_load_failed_prefix: "one_line load_failed_prefix"
  by (simp add: one_line_def load_failed_prefix_def asc_def)

lemma readme_in_box_documentation: "str_contains box_documentation (asc ''README.md'')"
  by (simp add: box_documentation_def asc_def spaces_def)


lemma box_message_neq_success: "box_top @ r \<noteq> success_message"
proof
  assume "box_top @ r = success_message"
  then have "hd (box_top @ r) = hd success_message" by simp
  then show False by (simp add: hd_box_top hd_success_message)
qed

lemma load_failed_neq_success: "load_failed_prefix @ r \<noteq> success_message"
proof
  assume "load_failed_prefix @ r = success_message"
  then have "hd (load_failed_prefix @ r) = hd success_message" by simp
  then show False by (simp add: hd_load_failed_prefix hd_success_message)
qed

lemma check_failed_neq_success: "check_failed_prefix @ r \<noteq> success_message"
proof
  assume "check_failed_prefix @ r = success_message"
  then have "hd (check_failed_prefix @ r) = hd success_message" by simp
  then show False by (simp add: hd_check_failed_prefix hd_success_message)
qed

lemma not_installed_neq_success: "not_installed_message \<noteq> success_message"
proof
  assume "not_installed_message = success_message"
  then have "hd not_installed_message = hd success_message" by simp
  then show False by (simp add: hd_not_installed_message hd_success_message)
qed

lemma box_top_nonempty: "box_top \<noteq> []"
  by (simp add: box_top_def)

lemma load_failed_nonempty: "load_failed_prefix \<noteq> []"
  by (simp add: load_failed_prefix_def)

lemma check_failed_nonempty: "check_failed_prefix \<noteq> []"
  by (simp add: check_failed_prefix_def)

lemma not_installed_nonempty: "not_installed_message \<noteq> []"
  by (simp add: not_installed_message_def)

lemma success_nonempty: "success_message \<noteq> []"
  by (simp add: success_message_def)

subsection \<open>The probe, handler by handler\<close>

lemma check_loaded:
  "load_attempt h = Inr u \<Longrightarrow> check_pango_available lower h = Inr (True, success_message)"
  by (simp add: check_pango_available_def)

lemma check_oserror_known:
  assumes "load_attempt h = Inl e" and "exc_class e = OSError"
    and "exc_str e = Inr error_msg"
    and "str_contains (lower error_msg) (asc ''gobject'')
         \<or> str_contains (lower error_msg) (asc ''pango'')
         \<or> str_contains (lower error_msg) (asc ''gdk'')"
  shows "check_pango_available lower h =
           Inr (False, box_top @ box_header @ box_blank @ box_pdf_only_note @ box_blank
                       @ get_platform_specific_instructions h
                       @ box_blank @ box_documentation @ box_bottom)"
  using assms by (simp add: check_pango_available_def Let_def)

lemma check_oserror_unknown:
  assumes "load_attempt h = Inl e" and "exc_class e = OSError"
    and "exc_str e = Inr error_msg"
    and "\<not> str_contains (lower error_msg) (asc ''gobject'')"
    and "\<not> str_contains (lower error_msg) (asc ''pango'')"
    and "\<not> str_contains (lower error_msg) (asc ''gdk'')"
  shows "check_pango_available lower h = Inr (False, load_failed_prefix @ error_msg)"
  using assms by (simp add: check_pango_available_def Let_def)

lemma check_oserror_str_raises:
  assumes "load_attempt h = Inl e" and "exc_class e = OSError"
    and "exc_str e = Inl raised"
  shows "check_pango_available lower h = Inl raised"
  using assms by (simp add: check_pango_available_def)

lemma check_importerror:
  assumes "load_attempt h = Inl e" and "exc_class e = ImportError"
  shows "check_pango_available lower h = Inr (False, not_installed_message)"
  using assms by (simp add: check_pango_available_def)

lemma check_exception:
  assumes "load_attempt h = Inl e" and "exc_class e = Exception"
    and "exc_format e = Inr formatted"
  shows "check_pango_available lower h = Inr (False, check_failed_prefix @ formatted)"
  using assms by (simp add: check_pango_available_def)

lemma check_exception_format_raises:
  assumes "load_attempt h = Inl e" and "exc_class e = Exception"
    and "exc_format e = Inl raised"
  shows "check_pango_available lower h = Inl raised"
  using assms by (simp add: check_pango_available_def)

lemma check_baseexception:
  assumes "load_attempt h = Inl e" and "exc_class e = BaseException"
  shows "check_pango_available lower h = Inl e"
  using assms by (simp add: check_pango_available_def)

lemma check_oserror_returns:
  assumes "load_attempt h = Inl e" and "exc_class e = OSError"
    and "exc_str e = Inr error_msg"
  shows "\<exists>m. check_pango_available lower h = Inr (False, m) \<and> m \<noteq> [] \<and> m \<noteq> success_message"
proof (cases "str_contains (lower error_msg) (asc ''gobject'')
         \<or> str_contains (lower error_msg) (asc ''pango'')
         \<or> str_contains (lower error_msg) (asc ''gdk'')")
  case True
  from check_oserror_known [where lower = lower, OF assms True]
  show ?thesis by (simp add: box_top_nonempty box_message_neq_success)
next
  case False
  then have "check_pango_available lower h = Inr (False, load_failed_prefix @ error_msg)"
    using check_oserror_unknown [where lower = lower, OF assms] by simp
  then show ?thesis by (simp add: load_failed_nonempty load_failed_neq_success)
qed

lemma check_importerror_returns:
  assumes "load_attempt h = Inl e" and "exc_class e = ImportError"
  shows "\<exists>m. check_pango_available lower h = Inr (False, m) \<and> m \<noteq> [] \<and> m \<noteq> success_message"
  using check_importerror [OF assms]
  by (simp add: not_installed_nonempty not_installed_neq_success)

lemma check_exception_returns:
  assumes "load_attempt h = Inl e" and "exc_class e = Exception"
    and "exc_format e = Inr formatted"
  shows "\<exists>m. check_pango_available lower h = Inr (False, m) \<and> m \<noteq> [] \<and> m \<noteq> success_message"
  using check_exception [OF assms]
  by (simp add: check_failed_nonempty check_failed_neq_success)

lemma check_result_invariant:
  assumes "check_pango_available lower h = Inr (a, m)"
  shows "(a \<longleftrightarrow> m = success_message) \<and> m \<noteq> []"
proof (cases "load_attempt h")
  case (Inr u)
  with check_loaded [of h u lower] assms show ?thesis by (simp add: success_nonempty)
next
  case (Inl e)
  show ?thesis
  proof (cases "exc_class e")
    case OSError
    show ?thesis
    proof (cases "exc_str e")
      case (Inl raised)
      with check_oserror_str_raises [OF \<open>load_attempt h = Inl e\<close> OSError] assms
      show ?thesis by simp
    next
      case (Inr error_msg)
      with check_oserror_returns [OF \<open>load_attempt h = Inl e\<close> OSError, of error_msg lower] assms
      show ?thesis by auto
    qed
  next
    case ImportError
    with check_importerror_returns [OF \<open>load_attempt h = Inl e\<close>, of lower] assms
    show ?thesis by auto
  next
    case Exception
    show ?thesis
    proof (cases "exc_format e")
      case (Inl raised)
      with check_exception_format_raises [OF \<open>load_attempt h = Inl e\<close> Exception] assms
      show ?thesis by simp
    next
      case (Inr formatted)
      with check_exception_returns [OF \<open>load_attempt h = Inl e\<close> Exception, of formatted lower] assms
      show ?thesis by auto
    qed
  next
    case BaseException
    with check_baseexception [OF \<open>load_attempt h = Inl e\<close>] assms show ?thesis by simp
  qed
qed

section \<open>The claims\<close>

lemma load_attempt_all_complete:
  "import_weasyprint h = Inr () \<Longrightarrow> import_text_ffi h = Inr () \<Longrightarrow> pango_version h = Inr ()
   \<Longrightarrow> load_attempt h = Inr ()"
  by (simp add: load_attempt_def)

lemma not_one_line_box_top: "\<not> one_line (box_top @ r)"
  by (simp add: one_line_def box_top_def)

lemma instructions_marks:
  "macos_instructions ! 3 = 127822"
  "linux_instructions ! 3 = 128039"
  "windows_instructions ! 3 = 129695"
  "other_instructions ! 3 = 35831"
  by (simp_all add: macos_instructions_def linux_instructions_def windows_instructions_def
      other_instructions_def asc_def)

lemma instructions_distinct:
  "distinct [macos_instructions, linux_instructions, windows_instructions, other_instructions]"
proof -
  have "a \<noteq> b" if "a ! 3 \<noteq> b ! 3" for a b :: pystr
    using that by auto
  then show ?thesis
    by (simp add: instructions_marks)
qed

text \<open>
  C4. When both imports and the call of the version query complete, the probe returns
  available = true and the fixed success string.
\<close>

theorem C4_success:
  assumes "import_weasyprint h = Inr ()"
    and "import_text_ffi h = Inr ()"
    and "pango_version h = Inr ()"
  shows "check_pango_available lower h = Inr (True, success_message)"
  using check_loaded [OF load_attempt_all_complete [OF assms]] .

theorem C4_success_witness:
  "check_pango_available ascii_lower
     \<lparr>platform_system = asc ''Linux'', import_weasyprint = Inr (),
      import_text_ffi = Inr (), pango_version = Inr (), print_message = Inr []\<rparr>
   = Inr (True, success_message)"
  using C4_success [of "\<lparr>platform_system = asc ''Linux'', import_weasyprint = Inr (),
      import_text_ffi = Inr (), pango_version = Inr (), print_message = Inr []\<rparr>" ascii_lower]
  by simp

text \<open>
  C3. The instruction block is one of four fixed literals and depends on the host OS
  identifier alone: the macOS block for "Darwin", the Linux block for "Linux", the Windows
  block for "Windows", the fallback block for every other identifier; the four blocks are
  pairwise different.
\<close>

theorem C3_platform_instructions:
  "(platform_system h = asc ''Darwin'' \<longrightarrow>
      get_platform_specific_instructions h = macos_instructions)
   \<and> (platform_system h = asc ''Linux'' \<longrightarrow>
      get_platform_specific_instructions h = linux_instructions)
   \<and> (platform_system h = asc ''Windows'' \<longrightarrow>
      get_platform_specific_instructions h = windows_instructions)
   \<and> (platform_system h \<noteq> asc ''Darwin'' \<and> platform_system h \<noteq> asc ''Linux''
        \<and> platform_system h \<noteq> asc ''Windows'' \<longrightarrow>
      get_platform_specific_instructions h = other_instructions)
   \<and> (platform_system h = platform_system h' \<longrightarrow>
      get_platform_specific_instructions h = get_platform_specific_instructions h')
   \<and> distinct [macos_instructions, linux_instructions, windows_instructions,
                other_instructions]"
proof -
  have "asc ''Darwin'' \<noteq> asc ''Linux''" "asc ''Darwin'' \<noteq> asc ''Windows''"
    "asc ''Linux'' \<noteq> asc ''Windows''"
    by (simp_all add: asc_def)
  then show ?thesis
    using instructions_distinct
    by (simp add: get_platform_specific_instructions_def Let_def)
qed

theorem C3_platform_instructions_witness:
  "get_platform_specific_instructions
     \<lparr>platform_system = asc ''Darwin'', import_weasyprint = Inr (),
      import_text_ffi = Inr (), pango_version = Inr (), print_message = Inr []\<rparr> = macos_instructions
   \<and> get_platform_specific_instructions
     \<lparr>platform_system = asc ''Linux'', import_weasyprint = Inr (),
      import_text_ffi = Inr (), pango_version = Inr (), print_message = Inr []\<rparr> = linux_instructions
   \<and> get_platform_specific_instructions
     \<lparr>platform_system = asc ''Windows'', import_weasyprint = Inr (),
      import_text_ffi = Inr (), pango_version = Inr (), print_message = Inr []\<rparr> = windows_instructions
   \<and> get_platform_specific_instructions
     \<lparr>platform_system = asc ''FreeBSD'', import_weasyprint = Inr (),
      import_text_ffi = Inr (), pango_version = Inr (), print_message = Inr []\<rparr> = other_instructions"
proof -
  have ne: "asc ''FreeBSD'' \<noteq> asc ''Darwin''" "asc ''FreeBSD'' \<noteq> asc ''Linux''"
    "asc ''FreeBSD'' \<noteq> asc ''Windows''"
    by (simp_all add: asc_def)
  show ?thesis
    using ne
      C3_platform_instructions [of "\<lparr>platform_system = asc ''Darwin'', import_weasyprint = Inr (),
        import_text_ffi = Inr (), pango_version = Inr (), print_message = Inr []\<rparr>"]
      C3_platform_instructions [of "\<lparr>platform_system = asc ''Linux'', import_weasyprint = Inr (),
        import_text_ffi = Inr (), pango_version = Inr (), print_message = Inr []\<rparr>"]
      C3_platform_instructions [of "\<lparr>platform_system = asc ''Windows'', import_weasyprint = Inr (),
        import_text_ffi = Inr (), pango_version = Inr (), print_message = Inr []\<rparr>"]
      C3_platform_instructions [of "\<lparr>platform_system = asc ''FreeBSD'', import_weasyprint = Inr (),
        import_text_ffi = Inr (), pango_version = Inr (), print_message = Inr []\<rparr>"]
    by simp
qed

lemma not_installed_two_lines:
  "\<exists>first second. not_installed_message = first @ [10] @ second
     \<and> one_line first \<and> one_line second
     \<and> str_contains second (asc ''pip install weasyprint'')"
proof -
  let ?first = "[9888] @ asc '' WeasyPrint '' @ [26410, 23433, 35013]"
  let ?second = "[35299, 20915, 26041, 27861] @ asc '': pip install weasyprint''"
  have "not_installed_message = ?first @ [10] @ ?second"
    by (simp add: not_installed_message_def)
  moreover have "one_line ?first" "one_line ?second"
    by (simp_all add: one_line_def asc_def)
  moreover have "?second = ([35299, 20915, 26041, 27861] @ asc '': '') @ asc ''pip install weasyprint'' @ []"
    by (simp add: asc_def)
  then have "str_contains ?second (asc ''pip install weasyprint'')"
    by (rule str_containsI)
  ultimately show ?thesis by blast
qed


text \<open>
  C1. An OSError raised in the load attempt whose text, lower-cased, contains "gobject",
  "pango" or "gdk" gives available = false and the boxed message: it opens with the top
  rule and closes with the bottom rule, spans several lines, and contains the header line,
  the line saying that only PDF export is affected, the instruction block of
  get_platform_specific_instructions, and the documentation line, which names README.md.
\<close>

theorem C1_native_library_missing:
  assumes "load_attempt h = Inl e" and "exc_class e = OSError"
    and "exc_str e = Inr error_msg"
    and "str_contains (lower error_msg) (asc ''gobject'')
         \<or> str_contains (lower error_msg) (asc ''pango'')
         \<or> str_contains (lower error_msg) (asc ''gdk'')"
  shows "\<exists>m. check_pango_available lower h = Inr (False, m)
     \<and> m = box_top @ box_header @ box_blank @ box_pdf_only_note @ box_blank
           @ get_platform_specific_instructions h
           @ box_blank @ box_documentation @ box_bottom
     \<and> starts_with m box_top \<and> (\<exists>p. m = p @ box_bottom) \<and> \<not> one_line m
     \<and> str_contains m box_header
     \<and> str_contains m box_pdf_only_note
     \<and> str_contains m (get_platform_specific_instructions h)
     \<and> str_contains m box_documentation
     \<and> str_contains box_documentation (asc ''README.md'')"
proof -
  define m where "m = box_top @ box_header @ box_blank @ box_pdf_only_note @ box_blank
           @ get_platform_specific_instructions h
           @ box_blank @ box_documentation @ box_bottom"
  have ret: "check_pango_available lower h = Inr (False, m)"
    unfolding m_def by (rule check_oserror_known [where lower = lower, OF assms])
  have top: "starts_with m box_top"
    by (simp add: starts_with_iff m_def)
  have bottom: "\<exists>p. m = p @ box_bottom"
  proof
    show "m = (box_top @ box_header @ box_blank @ box_pdf_only_note @ box_blank
           @ get_platform_specific_instructions h
           @ box_blank @ box_documentation) @ box_bottom"
      by (simp add: m_def)
  qed
  have lines: "\<not> one_line m"
    unfolding m_def by (rule not_one_line_box_top)
  have header: "str_contains m box_header"
    by (rule str_containsI [where p = box_top]) (simp add: m_def)
  have only_pdf: "str_contains m box_pdf_only_note"
    by (rule str_containsI [where p = "box_top @ box_header @ box_blank"]) (simp add: m_def)
  have instr: "str_contains m (get_platform_specific_instructions h)"
    by (rule str_containsI
        [where p = "box_top @ box_header @ box_blank @ box_pdf_only_note @ box_blank"])
      (simp add: m_def)
  have doc: "str_contains m box_documentation"
    by (rule str_containsI
        [where p = "box_top @ box_header @ box_blank @ box_pdf_only_note @ box_blank
           @ get_platform_specific_instructions h @ box_blank" and s = box_bottom])
      (simp add: m_def)
  from ret top bottom lines header only_pdf instr doc readme_in_box_documentation
  show ?thesis unfolding m_def by blast
qed

theorem C1_native_library_missing_witness:
  "check_pango_available ascii_lower
     \<lparr>platform_system = asc ''Linux'', import_weasyprint = Inr (),
      import_text_ffi =
        Inl (PyExc OSError (Inr (asc ''cannot load library libPango-1.0.so.0''))
                           (Inr (asc ''cannot load library libPango-1.0.so.0''))),
      pango_version = Inr (), print_message = Inr []\<rparr>
   = Inr (False, box_top @ box_header @ box_blank @ box_pdf_only_note @ box_blank
           @ linux_instructions
           @ box_blank @ box_documentation @ box_bottom)"
proof -
  let ?t = "asc ''cannot load library libPango-1.0.so.0''"
  let ?e = "PyExc OSError (Inr ?t) (Inr ?t)"
  let ?h = "\<lparr>platform_system = asc ''Linux'', import_weasyprint = Inr (),
      import_text_ffi = Inl ?e, pango_version = Inr (), print_message = Inr []\<rparr>"
  have raised: "load_attempt ?h = Inl ?e"
    by (simp add: load_attempt_def)
  have cls: "exc_class ?e = OSError"
    by simp
  have shown: "exc_str ?e = Inr ?t"
    by simp
  have found: "str_contains (ascii_lower ?t) (asc ''gobject'')
         \<or> str_contains (ascii_lower ?t) (asc ''pango'')
         \<or> str_contains (ascii_lower ?t) (asc ''gdk'')"
    by (simp add: ascii_lower_def asc_def)
  have linux: "get_platform_specific_instructions ?h = linux_instructions"
    by (simp add: get_platform_specific_instructions_def asc_def)
  from C1_native_library_missing [where lower = ascii_lower, OF raised cls shown found] linux
  show ?thesis by simp
qed

text \<open>
  C5 (as amended). An ImportError raised in the load attempt gives available = false and
  the fixed install message. The message has two lines, not one: a first line saying that
  WeasyPrint is not installed, a line feed, and a second line holding the instruction
  "pip install weasyprint".
\<close>

theorem C5_package_missing:
  assumes "load_attempt h = Inl e" and "exc_class e = ImportError"
  shows "check_pango_available lower h = Inr (False, not_installed_message)
     \<and> (\<exists>first second. not_installed_message = first @ [10] @ second
            \<and> one_line first \<and> one_line second
            \<and> str_contains second (asc ''pip install weasyprint''))"
  using check_importerror [OF assms] not_installed_two_lines by simp

theorem C5_package_missing_witness:
  "check_pango_available ascii_lower
     \<lparr>platform_system = asc ''Windows'',
      import_weasyprint =
        Inl (PyExc ImportError (Inr (asc ''No module named weasyprint''))
                               (Inr (asc ''No module named weasyprint''))),
      import_text_ffi = Inr (), pango_version = Inr (), print_message = Inr []\<rparr>
   = Inr (False, not_installed_message)"
proof -
  let ?e = "PyExc ImportError (Inr (asc ''No module named weasyprint''))
                              (Inr (asc ''No module named weasyprint''))"
  let ?h = "\<lparr>platform_system = asc ''Windows'', import_weasyprint = Inl ?e,
      import_text_ffi = Inr (), pango_version = Inr (), print_message = Inr []\<rparr>"
  have raised: "load_attempt ?h = Inl ?e"
    by (simp add: load_attempt_def)
  have cls: "exc_class ?e = ImportError"
    by simp
  from C5_package_missing [where lower = ascii_lower, OF raised cls]
  show ?thesis by simp
qed

text \<open>
  The claim as written, "a fixed one-line message", fails: the message returned for an
  ImportError holds a line feed.
\<close>

theorem C5_one_line_counterexample:
  "check_pango_available ascii_lower
     \<lparr>platform_system = asc ''Linux'',
      import_weasyprint =
        Inl (PyExc ImportError (Inr (asc ''No module named weasyprint''))
                               (Inr (asc ''No module named weasyprint''))),
      import_text_ffi = Inr (), pango_version = Inr (), print_message = Inr []\<rparr>
   = Inr (False, not_installed_message)
   \<and> \<not> one_line not_installed_message"
  by (simp add: check_pango_available_def load_attempt_def one_line_def
      not_installed_message_def)

text \<open>
  C6 (as amended). An OSError raised in the load attempt whose text, lower-cased, contains
  none of "gobject", "pango", "gdk" gives available = false and the generic message: a
  fixed one-line prefix followed by the raw error text, unchanged. The message is one line
  exactly when the error text is.
\<close>

theorem C6_native_load_other:
  assumes "load_attempt h = Inl e" and "exc_class e = OSError"
    and "exc_str e = Inr error_msg"
    and "\<not> str_contains (lower error_msg) (asc ''gobject'')"
    and "\<not> str_contains (lower error_msg) (asc ''pango'')"
    and "\<not> str_contains (lower error_msg) (asc ''gdk'')"
  shows "check_pango_available lower h = Inr (False, load_failed_prefix @ error_msg)
     \<and> one_line load_failed_prefix
     \<and> str_contains (load_failed_prefix @ error_msg) error_msg
     \<and> (one_line (load_failed_prefix @ error_msg) \<longleftrightarrow> one_line error_msg)"
proof -
  have "load_failed_prefix @ error_msg = load_failed_prefix @ error_msg @ []"
    by simp
  then have "str_contains (load_failed_prefix @ error_msg) error_msg"
    by (rule str_containsI)
  then show ?thesis
    using check_oserror_unknown [where lower = lower, OF assms] one_line_load_failed_prefix
    by (simp add: one_line_append)
qed

theorem C6_native_load_other_witness:
  "check_pango_available ascii_lower
     \<lparr>platform_system = asc ''Linux'', import_weasyprint = Inr (),
      import_text_ffi = Inr (),
      pango_version =
        Inl (PyExc OSError (Inr (asc ''libcairo.so.2: cannot open shared object file''))
                           (Inr (asc ''libcairo.so.2: cannot open shared object file''))),
      print_message = Inr []\<rparr>
   = Inr (False, load_failed_prefix @ asc ''libcairo.so.2: cannot open shared object file'')
   \<and> one_line (load_failed_prefix @ asc ''libcairo.so.2: cannot open shared object file'')"
proof -
  let ?t = "asc ''libcairo.so.2: cannot open shared object file''"
  let ?e = "PyExc OSError (Inr ?t) (Inr ?t)"
  let ?h = "\<lparr>platform_system = asc ''Linux'', import_weasyprint = Inr (),
      import_text_ffi = Inr (), pango_version = Inl ?e, print_message = Inr []\<rparr>"
  have raised: "load_attempt ?h = Inl ?e"
    by (simp add: load_attempt_def)
  have cls: "exc_class ?e = OSError"
    by simp
  have shown: "exc_str ?e = Inr ?t"
    by simp
  have n1: "\<not> str_contains (ascii_lower ?t) (asc ''gobject'')"
    by (simp add: ascii_lower_def asc_def)
  have n2: "\<not> str_contains (ascii_lower ?t) (asc ''pango'')"
    by (simp add: ascii_lower_def asc_def)
  have n3: "\<not> str_contains (ascii_lower ?t) (asc ''gdk'')"
    by (simp add: ascii_lower_def asc_def)
  have plain: "one_line ?t"
    by (simp add: one_line_def asc_def)
  from C6_native_load_other [where lower = ascii_lower, OF raised cls shown n1 n2 n3] plain
  show ?thesis by simp
qed

text \<open>
  The claim as written, "a generic one-line message", fails for an error text of two
  lines: the message returned holds the line feed of the error text.
\<close>

theorem C6_one_line_counterexample:
  "check_pango_available ascii_lower
     \<lparr>platform_system = asc ''Linux'', import_weasyprint = Inr (),
      import_text_ffi =
        Inl (PyExc OSError (Inr (asc ''cannot load library'' @ [10] @ asc ''libcairo.so.2''))
                           (Inr (asc ''cannot load library'' @ [10] @ asc ''libcairo.so.2''))),
      pango_version = Inr (), print_message = Inr []\<rparr>
   = Inr (False, load_failed_prefix @ asc ''cannot load library'' @ [10] @ asc ''libcairo.so.2'')
   \<and> \<not> one_line (load_failed_prefix @ asc ''cannot load library'' @ [10] @ asc ''libcairo.so.2'')"
proof -
  let ?t = "asc ''cannot load library'' @ [10] @ asc ''libcairo.so.2''"
  have n: "\<not> str_contains (ascii_lower ?t) (asc ''gobject'')"
    "\<not> str_contains (ascii_lower ?t) (asc ''pango'')"
    "\<not> str_contains (ascii_lower ?t) (asc ''gdk'')"
    by (simp_all add: ascii_lower_def asc_def)
  have "\<not> one_line (load_failed_prefix @ ?t)"
    by (simp add: one_line_def)
  then show ?thesis
    using n by (simp add: check_pango_available_def load_attempt_def Let_def)
qed

text \<open>
  C2 (as amended). The probe returns a pair (bool, str) when the load attempt completes,
  when it raises an ImportError, when it raises an OSError whose str() returns a text, and
  when it raises another instance of Exception whose formatting returns a text. It does
  not return, and an exception reaches the caller, when the load attempt raises an
  exception outside Exception (KeyboardInterrupt, SystemExit, GeneratorExit), which no
  handler catches, and when the text conversion of a caught OSError or Exception raises
  inside its handler.
\<close>

theorem C2_returns_unless_uncaught:
  "(load_attempt h = Inr () \<longrightarrow> (\<exists>m. check_pango_available lower h = Inr (True, m)))
   \<and> (\<forall>e. load_attempt h = Inl e \<and> exc_class e = ImportError \<longrightarrow>
          (\<exists>m. check_pango_available lower h = Inr (False, m)))
   \<and> (\<forall>e error_msg. load_attempt h = Inl e \<and> exc_class e = OSError
          \<and> exc_str e = Inr error_msg \<longrightarrow>
          (\<exists>m. check_pango_available lower h = Inr (False, m)))
   \<and> (\<forall>e formatted. load_attempt h = Inl e \<and> exc_class e = Exception
          \<and> exc_format e = Inr formatted \<longrightarrow>
          (\<exists>m. check_pango_available lower h = Inr (False, m)))
   \<and> (\<forall>e. load_attempt h = Inl e \<and> exc_class e = BaseException \<longrightarrow>
          check_pango_available lower h = Inl e)
   \<and> (\<forall>e raised. load_attempt h = Inl e \<and> exc_class e = OSError
          \<and> exc_str e = Inl raised \<longrightarrow>
          check_pango_available lower h = Inl raised)
   \<and> (\<forall>e raised. load_attempt h = Inl e \<and> exc_class e = Exception
          \<and> exc_format e = Inl raised \<longrightarrow>
          check_pango_available lower h = Inl raised)"
proof -
  have c1: "\<exists>m. check_pango_available lower h = Inr (True, m)" if "load_attempt h = Inr ()"
    using check_loaded [OF that, of lower] by simp
  have c2: "\<exists>m. check_pango_available lower h = Inr (False, m)"
    if "load_attempt h = Inl e" "exc_class e = ImportError" for e
    using check_importerror_returns [OF that, of lower] by blast
  have c3: "\<exists>m. check_pango_available lower h = Inr (False, m)"
    if "load_attempt h = Inl e" "exc_class e = OSError" "exc_str e = Inr error_msg"
    for e error_msg
    using check_oserror_returns [OF that, of lower] by blast
  have c4: "\<exists>m. check_pango_available lower h = Inr (False, m)"
    if "load_attempt h = Inl e" "exc_class e = Exception" "exc_format e = Inr formatted"
    for e formatted
    using check_exception_returns [OF that, of lower] by blast
  have c5: "check_pango_available lower h = Inl e"
    if "load_attempt h = Inl e" "exc_class e = BaseException" for e
    using check_baseexception [OF that] .
  have c6: "check_pango_available lower h = Inl raised"
    if "load_attempt h = Inl e" "exc_class e = OSError" "exc_str e = Inl raised" for e raised
    using check_oserror_str_raises [OF that] .
  have c7: "check_pango_available lower h = Inl raised"
    if "load_attempt h = Inl e" "exc_class e = Exception" "exc_format e = Inl raised"
    for e raised
    using check_exception_format_raises [OF that] .
  from c1 c2 c3 c4 c5 c6 c7 show ?thesis by blast
qed

theorem C2_returns_unless_uncaught_witness:
  "(\<exists>m. check_pango_available ascii_lower
       \<lparr>platform_system = asc ''Linux'', import_weasyprint = Inr (),
        import_text_ffi = Inr (), pango_version = Inr (), print_message = Inr []\<rparr>
     = Inr (True, m))
   \<and> (\<exists>m. check_pango_available ascii_lower
       \<lparr>platform_system = asc ''Linux'',
        import_weasyprint = Inl (PyExc ImportError (Inr (asc ''No module'')) (Inr (asc ''No module''))),
        import_text_ffi = Inr (), pango_version = Inr (), print_message = Inr []\<rparr>
     = Inr (False, m))
   \<and> (\<exists>m. check_pango_available ascii_lower
       \<lparr>platform_system = asc ''Linux'', import_weasyprint = Inr (),
        import_text_ffi = Inl (PyExc OSError (Inr (asc ''no pango'')) (Inr (asc ''no pango''))),
        pango_version = Inr (), print_message = Inr []\<rparr>
     = Inr (False, m))
   \<and> (\<exists>m. check_pango_available ascii_lower
       \<lparr>platform_system = asc ''Linux'', import_weasyprint = Inr (),
        import_text_ffi = Inl (PyExc Exception (Inr (asc ''ffi'')) (Inr (asc ''ffi''))),
        pango_version = Inr (), print_message = Inr []\<rparr>
     = Inr (False, m))
   \<and> check_pango_available ascii_lower
       \<lparr>platform_system = asc ''Linux'', import_weasyprint = Inr (),
        import_text_ffi = Inr (),
        pango_version = Inl (PyExc BaseException (Inr []) (Inr [])), print_message = Inr []\<rparr>
     = Inl (PyExc BaseException (Inr []) (Inr []))
   \<and> check_pango_available ascii_lower
       \<lparr>platform_system = asc ''Linux'', import_weasyprint = Inr (),
        import_text_ffi =
          Inl (PyExc OSError (Inl (PyExc Exception (Inr (asc ''boom'')) (Inr (asc ''boom''))))
                             (Inl (PyExc Exception (Inr (asc ''boom'')) (Inr (asc ''boom''))))),
        pango_version = Inr (), print_message = Inr []\<rparr>
     = Inl (PyExc Exception (Inr (asc ''boom'')) (Inr (asc ''boom'')))
   \<and> check_pango_available ascii_lower
       \<lparr>platform_system = asc ''Linux'', import_weasyprint = Inr (),
        import_text_ffi =
          Inl (PyExc Exception (Inl (PyExc Exception (Inr (asc ''boom'')) (Inr (asc ''boom''))))
                               (Inl (PyExc Exception (Inr (asc ''boom'')) (Inr (asc ''boom''))))),
        pango_version = Inr (), print_message = Inr []\<rparr>
     = Inl (PyExc Exception (Inr (asc ''boom'')) (Inr (asc ''boom'')))"
proof -
  let ?boom = "PyExc Exception (Inr (asc ''boom'')) (Inr (asc ''boom''))"
  let ?h1 = "\<lparr>platform_system = asc ''Linux'', import_weasyprint = Inr (),
        import_text_ffi = Inr (), pango_version = Inr (), print_message = Inr []\<rparr>"
  let ?e2 = "PyExc ImportError (Inr (asc ''No module'')) (Inr (asc ''No module''))"
  let ?h2 = "\<lparr>platform_system = asc ''Linux'', import_weasyprint = Inl ?e2,
        import_text_ffi = Inr (), pango_version = Inr (), print_message = Inr []\<rparr>"
  let ?e3 = "PyExc OSError (Inr (asc ''no pango'')) (Inr (asc ''no pango''))"
  let ?h3 = "\<lparr>platform_system = asc ''Linux'', import_weasyprint = Inr (),
        import_text_ffi = Inl ?e3, pango_version = Inr (), print_message = Inr []\<rparr>"
  let ?e4 = "PyExc Exception (Inr (asc ''ffi'')) (Inr (asc ''ffi''))"
  let ?h4 = "\<lparr>platform_system = asc ''Linux'', import_weasyprint = Inr (),
        import_text_ffi = Inl ?e4, pango_version = Inr (), print_message = Inr []\<rparr>"
  let ?e5 = "PyExc BaseException (Inr []) (Inr [])"
  let ?h5 = "\<lparr>platform_system = asc ''Linux'', import_weasyprint = Inr (),
        import_text_ffi = Inr (), pango_version = Inl ?e5, print_message = Inr []\<rparr>"
  let ?e6 = "PyExc OSError (Inl ?boom) (Inl ?boom)"
  let ?h6 = "\<lparr>platform_system = asc ''Linux'', import_weasyprint = Inr (),
        import_text_ffi = Inl ?e6, pango_version = Inr (), print_message = Inr []\<rparr>"
  let ?e7 = "PyExc Exception (Inl ?boom) (Inl ?boom)"
  let ?h7 = "\<lparr>platform_system = asc ''Linux'', import_weasyprint = Inr (),
        import_text_ffi = Inl ?e7, pango_version = Inr (), print_message = Inr []\<rparr>"
  have a1: "load_attempt ?h1 = Inr ()"
    by (simp add: load_attempt_def)
  have a2: "load_attempt ?h2 = Inl ?e2 \<and> exc_class ?e2 = ImportError"
    by (simp add: load_attempt_def)
  have a3: "load_attempt ?h3 = Inl ?e3 \<and> exc_class ?e3 = OSError
            \<and> exc_str ?e3 = Inr (asc ''no pango'')"
    by (simp add: load_attempt_def)
  have a4: "load_attempt ?h4 = Inl ?e4 \<and> exc_class ?e4 = Exception
            \<and> exc_format ?e4 = Inr (asc ''ffi'')"
    by (simp add: load_attempt_def)
  have a5: "load_attempt ?h5 = Inl ?e5 \<and> exc_class ?e5 = BaseException"
    by (simp add: load_attempt_def)
  have a6: "load_attempt ?h6 = Inl ?e6 \<and> exc_class ?e6 = OSError \<and> exc_str ?e6 = Inl ?boom"
    by (simp add: load_attempt_def)
  have a7: "load_attempt ?h7 = Inl ?e7 \<and> exc_class ?e7 = Exception
            \<and> exc_format ?e7 = Inl ?boom"
    by (simp add: load_attempt_def)
  from C2_returns_unless_uncaught [of ?h1 ascii_lower] a1
  have r1: "\<exists>m. check_pango_available ascii_lower ?h1 = Inr (True, m)" by blast
  from C2_returns_unless_uncaught [of ?h2 ascii_lower] a2
  have r2: "\<exists>m. check_pango_available ascii_lower ?h2 = Inr (False, m)" by blast
  from C2_returns_unless_uncaught [of ?h3 ascii_lower] a3
  have r3: "\<exists>m. check_pango_available ascii_lower ?h3 = Inr (False, m)" by blast
  from C2_returns_unless_uncaught [of ?h4 ascii_lower] a4
  have r4: "\<exists>m. check_pango_available ascii_lower ?h4 = Inr (False, m)" by blast
  from C2_returns_unless_uncaught [of ?h5 ascii_lower] a5
  have r5: "check_pango_available ascii_lower ?h5 = Inl ?e5" by blast
  from C2_returns_unless_uncaught [of ?h6 ascii_lower] a6
  have r6: "check_pango_available ascii_lower ?h6 = Inl ?boom" by blast
  from C2_returns_unless_uncaught [of ?h7 ascii_lower] a7
  have r7: "check_pango_available ascii_lower ?h7 = Inl ?boom" by blast
  from r1 r2 r3 r4 r5 r6 r7 show ?thesis by blast
qed

text \<open>
  The claim as written, "never propagates an exception to its caller", fails: a
  KeyboardInterrupt raised while WeasyPrint is imported (its text is empty) is caught by
  none of the three handlers and reaches the caller.
\<close>

theorem C2_propagates_counterexample:
  "check_pango_available ascii_lower
     \<lparr>platform_system = asc ''Darwin'',
      import_weasyprint = Inl (PyExc BaseException (Inr []) (Inr [])),
      import_text_ffi = Inr (), pango_version = Inr (), print_message = Inr []\<rparr>
   = Inl (PyExc BaseException (Inr []) (Inr []))"
  by (simp add: check_pango_available_def load_attempt_def)

text \<open>
  C10 (as amended). On every outcome on which the probe returns, available is true exactly
  when the message is the success string, and the message is not empty. Every failure for
  which a handler builds a message (an ImportError; an OSError, matched or not, whose
  str() returns a text; any other instance of Exception whose formatting returns a text)
  gives available = false with a non-empty message other than the success string. So the
  boolean can be read off the message of every returned result. An exception outside
  Exception, and a caught exception whose text conversion raises, yield no result.
\<close>

theorem C10_available_iff_success_message:
  "(\<forall>a m. check_pango_available lower h = Inr (a, m) \<longrightarrow>
        (a \<longleftrightarrow> m = success_message) \<and> m \<noteq> [])
   \<and> (\<forall>e. load_attempt h = Inl e \<and> exc_class e = ImportError \<longrightarrow>
        (\<exists>m. check_pango_available lower h = Inr (False, m)
              \<and> m \<noteq> [] \<and> m \<noteq> success_message))
   \<and> (\<forall>e error_msg. load_attempt h = Inl e \<and> exc_class e = OSError
          \<and> exc_str e = Inr error_msg \<longrightarrow>
        (\<exists>m. check_pango_available lower h = Inr (False, m)
              \<and> m \<noteq> [] \<and> m \<noteq> success_message))
   \<and> (\<forall>e formatted. load_attempt h = Inl e \<and> exc_class e = Exception
          \<and> exc_format e = Inr formatted \<longrightarrow>
        (\<exists>m. check_pango_available lower h = Inr (False, m)
              \<and> m \<noteq> [] \<and> m \<noteq> success_message))
   \<and> (\<forall>e. load_attempt h = Inl e \<and> exc_class e = BaseException \<longrightarrow>
        (\<forall>a m. check_pango_available lower h \<noteq> Inr (a, m)))
   \<and> (\<forall>e raised. load_attempt h = Inl e \<and> exc_class e = OSError
          \<and> exc_str e = Inl raised \<longrightarrow>
        (\<forall>a m. check_pango_available lower h \<noteq> Inr (a, m)))
   \<and> (\<forall>e raised. load_attempt h = Inl e \<and> exc_class e = Exception
          \<and> exc_format e = Inl raised \<longrightarrow>
        (\<forall>a m. check_pango_available lower h \<noteq> Inr (a, m)))"
proof -
  have c1: "(a \<longleftrightarrow> m = success_message) \<and> m \<noteq> []"
    if "check_pango_available lower h = Inr (a, m)" for a m
    using check_result_invariant [OF that] .
  have c2: "\<exists>m. check_pango_available lower h = Inr (False, m)
              \<and> m \<noteq> [] \<and> m \<noteq> success_message"
    if "load_attempt h = Inl e" "exc_class e = ImportError" for e
    using check_importerror_returns [OF that, of lower] .
  have c3: "\<exists>m. check_pango_available lower h = Inr (False, m)
              \<and> m \<noteq> [] \<and> m \<noteq> success_message"
    if "load_attempt h = Inl e" "exc_class e = OSError" "exc_str e = Inr error_msg"
    for e error_msg
    using check_oserror_returns [OF that, of lower] .
  have c4: "\<exists>m. check_pango_available lower h = Inr (False, m)
              \<and> m \<noteq> [] \<and> m \<noteq> success_message"
    if "load_attempt h = Inl e" "exc_class e = Exception" "exc_format e = Inr formatted"
    for e formatted
    using check_exception_returns [OF that, of lower] .
  have c5: "check_pango_available lower h \<noteq> Inr (a, m)"
    if "load_attempt h = Inl e" "exc_class e = BaseException" for e a m
    using check_baseexception [OF that, of lower] by simp
  have c6: "check_pango_available lower h \<noteq> Inr (a, m)"
    if "load_attempt h = Inl e" "exc_class e = OSError" "exc_str e = Inl raised"
    for e raised a m
    using check_oserror_str_raises [OF that, of lower] by simp
  have c7: "check_pango_available lower h \<noteq> Inr (a, m)"
    if "load_attempt h = Inl e" "exc_class e = Exception" "exc_format e = Inl raised"
    for e raised a m
    using check_exception_format_raises [OF that, of lower] by simp
  from c1 c2 c3 c4 c5 c6 c7 show ?thesis by blast
qed

theorem C10_available_iff_success_message_witness:
  "check_pango_available ascii_lower
     \<lparr>platform_system = asc ''Linux'', import_weasyprint = Inr (),
      import_text_ffi = Inr (),
      pango_version = Inl (PyExc Exception (Inr (asc ''symbol not found''))
                                           (Inr (asc ''symbol not found''))),
      print_message = Inr []\<rparr>
   = Inr (False, check_failed_prefix @ asc ''symbol not found'')
   \<and> check_failed_prefix @ asc ''symbol not found'' \<noteq> success_message
   \<and> check_failed_prefix @ asc ''symbol not found'' \<noteq> []
   \<and> (\<exists>m. check_pango_available ascii_lower
       \<lparr>platform_system = asc ''Linux'',
        import_weasyprint = Inl (PyExc ImportError (Inr (asc ''No module'')) (Inr (asc ''No module''))),
        import_text_ffi = Inr (), pango_version = Inr (), print_message = Inr []\<rparr>
       = Inr (False, m) \<and> m \<noteq> [] \<and> m \<noteq> success_message)
   \<and> (\<exists>m. check_pango_available ascii_lower
       \<lparr>platform_system = asc ''Linux'', import_weasyprint = Inr (),
        import_text_ffi = Inl (PyExc OSError (Inr (asc ''no pango'')) (Inr (asc ''no pango''))),
        pango_version = Inr (), print_message = Inr []\<rparr>
       = Inr (False, m) \<and> m \<noteq> [] \<and> m \<noteq> success_message)
   \<and> (\<forall>a m. check_pango_available ascii_lower
       \<lparr>platform_system = asc ''Linux'', import_weasyprint = Inr (),
        import_text_ffi = Inr (),
        pango_version = Inl (PyExc BaseException (Inr []) (Inr [])), print_message = Inr []\<rparr>
       \<noteq> Inr (a, m))
   \<and> (\<forall>a m. check_pango_available ascii_lower
       \<lparr>platform_system = asc ''Linux'', import_weasyprint = Inr (),
        import_text_ffi =
          Inl (PyExc OSError (Inl (PyExc Exception (Inr (asc ''boom'')) (Inr (asc ''boom''))))
                             (Inl (PyExc Exception (Inr (asc ''boom'')) (Inr (asc ''boom''))))),
        pango_version = Inr (), print_message = Inr []\<rparr>
       \<noteq> Inr (a, m))
   \<and> (\<forall>a m. check_pango_available ascii_lower
       \<lparr>platform_system = asc ''Linux'', import_weasyprint = Inr (),
        import_text_ffi =
          Inl (PyExc Exception (Inl (PyExc Exception (Inr (asc ''boom'')) (Inr (asc ''boom''))))
                               (Inl (PyExc Exception (Inr (asc ''boom'')) (Inr (asc ''boom''))))),
        pango_version = Inr (), print_message = Inr []\<rparr>
       \<noteq> Inr (a, m))"
proof -
  let ?boom = "PyExc Exception (Inr (asc ''boom'')) (Inr (asc ''boom''))"
  let ?e = "PyExc Exception (Inr (asc ''symbol not found'')) (Inr (asc ''symbol not found''))"
  let ?h = "\<lparr>platform_system = asc ''Linux'', import_weasyprint = Inr (),
      import_text_ffi = Inr (), pango_version = Inl ?e, print_message = Inr []\<rparr>"
  let ?e2 = "PyExc ImportError (Inr (asc ''No module'')) (Inr (asc ''No module''))"
  let ?h2 = "\<lparr>platform_system = asc ''Linux'', import_weasyprint = Inl ?e2,
        import_text_ffi = Inr (), pango_version = Inr (), print_message = Inr []\<rparr>"
  let ?e3 = "PyExc OSError (Inr (asc ''no pango'')) (Inr (asc ''no pango''))"
  let ?h3 = "\<lparr>platform_system = asc ''Linux'', import_weasyprint = Inr (),
        import_text_ffi = Inl ?e3, pango_version = Inr (), print_message = Inr []\<rparr>"
  let ?e5 = "PyExc BaseException (Inr []) (Inr [])"
  let ?h5 = "\<lparr>platform_system = asc ''Linux'', import_weasyprint = Inr (),
        import_text_ffi = Inr (), pango_version = Inl ?e5, print_message = Inr []\<rparr>"
  let ?e6 = "PyExc OSError (Inl ?boom) (Inl ?boom)"
  let ?h6 = "\<lparr>platform_system = asc ''Linux'', import_weasyprint = Inr (),
        import_text_ffi = Inl ?e6, pango_version = Inr (), print_message = Inr []\<rparr>"
  let ?e7 = "PyExc Exception (Inl ?boom) (Inl ?boom)"
  let ?h7 = "\<lparr>platform_system = asc ''Linux'', import_weasyprint = Inr (),
        import_text_ffi = Inl ?e7, pango_version = Inr (), print_message = Inr []\<rparr>"
  have ret: "check_pango_available ascii_lower ?h
             = Inr (False, check_failed_prefix @ asc ''symbol not found'')"
    by (simp add: check_pango_available_def load_attempt_def)
  have a1: "load_attempt ?h = Inl ?e \<and> exc_class ?e = Exception
            \<and> exc_format ?e = Inr (asc ''symbol not found'')"
    by (simp add: load_attempt_def)
  have a2: "load_attempt ?h2 = Inl ?e2 \<and> exc_class ?e2 = ImportError"
    by (simp add: load_attempt_def)
  have a3: "load_attempt ?h3 = Inl ?e3 \<and> exc_class ?e3 = OSError
            \<and> exc_str ?e3 = Inr (asc ''no pango'')"
    by (simp add: load_attempt_def)
  have a5: "load_attempt ?h5 = Inl ?e5 \<and> exc_class ?e5 = BaseException"
    by (simp add: load_attempt_def)
  have a6: "load_attempt ?h6 = Inl ?e6 \<and> exc_class ?e6 = OSError \<and> exc_str ?e6 = Inl ?boom"
    by (simp add: load_attempt_def)
  have a7: "load_attempt ?h7 = Inl ?e7 \<and> exc_class ?e7 = Exception
            \<and> exc_format ?e7 = Inl ?boom"
    by (simp add: load_attempt_def)
  from C10_available_iff_success_message [of ascii_lower ?h] ret
  have r0: "(False \<longleftrightarrow> check_failed_prefix @ asc ''symbol not found'' = success_message)
        \<and> check_failed_prefix @ asc ''symbol not found'' \<noteq> []"
    by blast
  from C10_available_iff_success_message [of ascii_lower ?h2] a2
  have r2: "\<exists>m. check_pango_available ascii_lower ?h2 = Inr (False, m)
           \<and> m \<noteq> [] \<and> m \<noteq> success_message"
    by blast
  from C10_available_iff_success_message [of ascii_lower ?h3] a3
  have r3: "\<exists>m. check_pango_available ascii_lower ?h3 = Inr (False, m)
           \<and> m \<noteq> [] \<and> m \<noteq> success_message"
    by blast
  from C10_available_iff_success_message [of ascii_lower ?h5] a5
  have r5: "\<forall>a m. check_pango_available ascii_lower ?h5 \<noteq> Inr (a, m)"
    by blast
  from C10_available_iff_success_message [of ascii_lower ?h6] a6
  have r6: "\<forall>a m. check_pango_available ascii_lower ?h6 \<noteq> Inr (a, m)"
    by blast
  from C10_available_iff_success_message [of ascii_lower ?h7] a7
  have r7: "\<forall>a m. check_pango_available ascii_lower ?h7 \<noteq> Inr (a, m)"
    by blast
  from ret r0 r2 r3 r5 r6 r7 show ?thesis by blast
qed

text \<open>
  The claim as written, "every failure outcome yields available = false together with a
  message", fails: when pango_version() leaves through SystemExit (text "1"), the probe
  yields no pair at all.
\<close>

theorem C10_no_result_counterexample:
  "check_pango_available ascii_lower
     \<lparr>platform_system = asc ''Linux'', import_weasyprint = Inr (),
      import_text_ffi = Inr (),
      pango_version = Inl (PyExc BaseException (Inr (asc ''1'')) (Inr (asc ''1''))),
      print_message = Inr []\<rparr>
   = Inl (PyExc BaseException (Inr (asc ''1'')) (Inr (asc ''1'')))"
  by (simp add: check_pango_available_def load_attempt_def)

text \<open>
  C7. Whenever the probe returns (available, message), log_dependency_status returns that
  same boolean.
\<close>

theorem C7_log_returns_available:
  assumes "check_pango_available lower h = Inr (a, m)"
  shows "\<exists>logger'. log_dependency_status lower h logger = Inr (a, logger')"
  using assms by (simp add: log_dependency_status_def)

theorem C7_log_returns_available_witness:
  "(\<exists>logger'. log_dependency_status ascii_lower
       \<lparr>platform_system = asc ''Linux'', import_weasyprint = Inr (),
        import_text_ffi = Inr (), pango_version = Inr (), print_message = Inr []\<rparr> []
     = Inr (True, logger'))
   \<and> (\<exists>logger'. log_dependency_status ascii_lower
       \<lparr>platform_system = asc ''Linux'',
        import_weasyprint = Inl (PyExc ImportError (Inr (asc ''No module'')) (Inr (asc ''No module''))),
        import_text_ffi = Inr (), pango_version = Inr (), print_message = Inr []\<rparr> []
     = Inr (False, logger'))"
proof -
  let ?ok = "\<lparr>platform_system = asc ''Linux'', import_weasyprint = Inr (),
        import_text_ffi = Inr (), pango_version = Inr (), print_message = Inr []\<rparr>"
  let ?missing = "\<lparr>platform_system = asc ''Linux'',
        import_weasyprint = Inl (PyExc ImportError (Inr (asc ''No module'')) (Inr (asc ''No module''))),
        import_text_ffi = Inr (), pango_version = Inr (), print_message = Inr []\<rparr>"
  have p1: "check_pango_available ascii_lower ?ok = Inr (True, success_message)"
    by (simp add: check_pango_available_def load_attempt_def)
  have p2: "check_pango_available ascii_lower ?missing = Inr (False, not_installed_message)"
    by (simp add: check_pango_available_def load_attempt_def)
  from C7_log_returns_available [OF p1, of "[]"] C7_log_returns_available [OF p2, of "[]"]
  show ?thesis by blast
qed

text \<open>
  C8. Whenever the probe returns (available, message), log_dependency_status appends to
  the log one record carrying the message, at severity SUCCESS when available is true; when
  it is false, the record is at severity WARNING and is followed by the two fixed INFO
  records, and by nothing else.
\<close>

theorem C8_log_records:
  assumes "check_pango_available lower h = Inr (a, m)"
  shows "log_dependency_status lower h logger =
           Inr (a, logger @ (if a then [(SUCCESS, m)]
                             else [(WARNING, m), (INFO, pdf_only_tip), (INFO, readme_tip)]))"
  using assms by (simp add: log_dependency_status_def)

theorem C8_log_records_witness:
  "log_dependency_status ascii_lower
       \<lparr>platform_system = asc ''Linux'', import_weasyprint = Inr (),
        import_text_ffi = Inr (), pango_version = Inr (), print_message = Inr []\<rparr>
       [(INFO, asc ''starting'')]
     = Inr (True, [(INFO, asc ''starting''), (SUCCESS, success_message)])
   \<and> log_dependency_status ascii_lower
       \<lparr>platform_system = asc ''Linux'',
        import_weasyprint = Inl (PyExc ImportError (Inr (asc ''No module'')) (Inr (asc ''No module''))),
        import_text_ffi = Inr (), pango_version = Inr (), print_message = Inr []\<rparr>
       [(INFO, asc ''starting'')]
     = Inr (False, [(INFO, asc ''starting''), (WARNING, not_installed_message),
                    (INFO, pdf_only_tip), (INFO, readme_tip)])"
proof -
  let ?ok = "\<lparr>platform_system = asc ''Linux'', import_weasyprint = Inr (),
        import_text_ffi = Inr (), pango_version = Inr (), print_message = Inr []\<rparr>"
  let ?missing = "\<lparr>platform_system = asc ''Linux'',
        import_weasyprint = Inl (PyExc ImportError (Inr (asc ''No module'')) (Inr (asc ''No module''))),
        import_text_ffi = Inr (), pango_version = Inr (), print_message = Inr []\<rparr>"
  have p1: "check_pango_available ascii_lower ?ok = Inr (True, success_message)"
    by (simp add: check_pango_available_def load_attempt_def)
  have p2: "check_pango_available ascii_lower ?missing = Inr (False, not_installed_message)"
    by (simp add: check_pango_available_def load_attempt_def)
  from C8_log_records [OF p1, of "[(INFO, asc ''starting'')]"]
    C8_log_records [OF p2, of "[(INFO, asc ''starting'')]"]
  show ?thesis by simp
qed




end
